theory Spec2Isabelle
  imports Complex_Main
begin

section \<open>JavaScript values\<close>

text \<open>
  The handlers of \<^verbatim>\<open>index.js\<close> work on untyped JavaScript values: the raw response
  of the control-plane client, the error it rejects with, and the JSON payload that is
  sent back. A value is modelled by its JSON shape. An object is the list of its own
  properties (keys distinct); prototype members other than \<^verbatim>\<open>length\<close> are not
  modelled, because the source reads none of them. A string is a list of code units.

  A number is represented by its mathematical value: \<open>Fin q\<close> stands for the binary64
  number that \<open>q\<close> rounds to. Rounding, overflow to an infinity and the sign of zero
  are not modelled: the numbers of interest (lengths, status codes, small literals) are
  exact.
\<close>

datatype jsnum = NaN | PosInf | NegInf | Fin rat

datatype jsval =
    Undefined
  | Null
  | JBool bool
  | JNum jsnum
  | JStr string
  | JArr "jsval list"
  | JObj "(string \<times> jsval) list"

text \<open>ToBoolean: the values \<^verbatim>\<open>undefined\<close>, \<^verbatim>\<open>null\<close>, \<^verbatim>\<open>false\<close>, \<^verbatim>\<open>0\<close>,
  \<^verbatim>\<open>NaN\<close> and the empty string are falsy; every array and object is truthy.\<close>

fun truthy :: "jsval \<Rightarrow> bool" where
  "truthy Undefined = False"
| "truthy Null = False"
| "truthy (JBool b) = b"
| "truthy (JNum n) = (n \<noteq> NaN \<and> n \<noteq> Fin 0)"
| "truthy (JStr s) = (s \<noteq> [])"
| "truthy (JArr xs) = True"
| "truthy (JObj kvs) = True"

text \<open>The operator \<^verbatim>\<open>a || b\<close> (the right operand is pure wherever the source uses it).\<close>

definition js_or :: "jsval \<Rightarrow> jsval \<Rightarrow> jsval" where
  "js_or a b = (if truthy a then a else b)"

fun nullish :: "jsval \<Rightarrow> bool" where
  "nullish Undefined = True"
| "nullish Null = True"
| "nullish v = False"

text \<open>Reading property \<open>k\<close> of a value that is neither \<^verbatim>\<open>undefined\<close> nor \<^verbatim>\<open>null\<close>.\<close>

fun getprop :: "jsval \<Rightarrow> string \<Rightarrow> jsval" where
  "getprop (JObj kvs) k = (case map_of kvs k of Some v \<Rightarrow> v | None \<Rightarrow> Undefined)"
| "getprop (JArr xs) k = (if k = ''length'' then JNum (Fin (of_nat (length xs))) else Undefined)"
| "getprop (JStr s) k = (if k = ''length'' then JNum (Fin (of_nat (length s))) else Undefined)"
| "getprop v k = Undefined"

text \<open>The value of the TypeError that V8 throws when a property of \<^verbatim>\<open>undefined\<close> or
  \<^verbatim>\<open>null\<close> is read; only its \<^verbatim>\<open>message\<close> property is kept.\<close>

definition TypeError :: "jsval \<Rightarrow> string \<Rightarrow> jsval" where
  "TypeError v k = JObj [(''message'', JStr (''Cannot read properties of ''
       @ (if v = Null then ''null'' else ''undefined'')
       @ '' (reading '' @ [CHR 0x27] @ k @ [CHR 0x27] @ '')''))]"

text \<open>\<^verbatim>\<open>v.k\<close>: throws on \<^verbatim>\<open>undefined\<close> and \<^verbatim>\<open>null\<close>. \<open>Inl\<close> is the thrown value.\<close>

definition propget :: "jsval \<Rightarrow> string \<Rightarrow> jsval + jsval" where
  "propget v k = (if nullish v then Inl (TypeError v k) else Inr (getprop v k))"

text \<open>\<^verbatim>\<open>v?.k\<close>: \<^verbatim>\<open>undefined\<close> where \<^verbatim>\<open>v.k\<close> would throw.\<close>

definition optget :: "jsval \<Rightarrow> string \<Rightarrow> jsval" where
  "optget v k = (if nullish v then Undefined else getprop v k)"

text \<open>Sequencing of computations that may throw.\<close>

definition thenE :: "'e + 'a \<Rightarrow> ('a \<Rightarrow> 'e + 'b) \<Rightarrow> 'e + 'b" where
  "thenE m f = (case m of Inl e \<Rightarrow> Inl e | Inr x \<Rightarrow> f x)"

section \<open>The HTTP response\<close>

text \<open>
  Of the framework's response object the handlers use \<^verbatim>\<open>res.status(code)\<close>, which
  stores the status code, and \<^verbatim>\<open>res.json(obj)\<close>, which sends \<open>obj\<close> as the JSON
  payload with the status code stored so far. A fresh response has status code 200.
  The payload is kept as the value handed to \<^verbatim>\<open>res.json\<close>.
\<close>

record response =
  statusCode :: jsval
  payload :: "jsval option"

definition fresh_response :: response where
  "fresh_response = \<lparr> statusCode = JNum (Fin 200), payload = None \<rparr>"

definition res_status :: "response \<Rightarrow> jsval \<Rightarrow> response" where
  "res_status res code = res\<lparr> statusCode := code \<rparr>"

definition res_json :: "response \<Rightarrow> jsval \<Rightarrow> response" where
  "res_json res obj = res\<lparr> payload := Some obj \<rparr>"

section \<open>Response shaping\<close>

text \<open>\<^verbatim>\<open>sendList(res, apiResp)\<close>. The properties of the object literal are evaluated
  in the order they are written.\<close>

definition sendList :: "response \<Rightarrow> jsval \<Rightarrow> jsval + response" where
  "sendList res apiResp =
     thenE (propget apiResp ''body'') (\<lambda>b.
       let body = js_or b (JObj []) in
       thenE (propget body ''items'') (\<lambda>i.
         let items = js_or i (JArr []) in
         thenE (propget items ''length'') (\<lambda>count.
         thenE (propget body ''metadata'') (\<lambda>m1.
         thenE (propget body ''metadata'') (\<lambda>m2.
           Inr (res_json res (JObj
             [(''count'', count),
              (''continue'', js_or (optget m1 ''continue'') Null),
              (''resourceVersion'', js_or (optget m2 ''resourceVersion'') Null),
              (''items'', items)])))))))"

text \<open>\<^verbatim>\<open>sendError(res, err)\<close>. Every property read is guarded by \<^verbatim>\<open>?.\<close>, so it
  cannot throw.\<close>

definition sendError :: "response \<Rightarrow> jsval \<Rightarrow> response" where
  "sendError res err =
     (let status = js_or (optget (optget err ''response'') ''statusCode'') (JNum (Fin 500));
          details = js_or (optget (optget err ''response'') ''body'')
                      (JObj [(''message'', js_or (optget err ''message'') (JStr ''Unknown error''))])
      in res_json (res_status res status)
           (JObj [(''error'', JStr ''K8S_API_ERROR''),
                  (''status'', status),
                  (''details'', details)]))"

section \<open>Query strings\<close>

text \<open>
  The framework hands the parsed query string to a handler as \<^verbatim>\<open>req.query\<close>: each
  parameter that occurs is a string, an array (a repeated parameter) or a nested
  object (bracket syntax); a parameter that does not occur reads as \<^verbatim>\<open>undefined\<close>.
\<close>

datatype qval = QStr string | QArr "qval list" | QObj "(string \<times> qval) list"

record request =
  query :: "string \<Rightarrow> qval option"

primrec of_qval :: "qval \<Rightarrow> jsval" where
  "of_qval (QStr s) = JStr s"
| "of_qval (QArr xs) = JArr (map of_qval xs)"
| "of_qval (QObj kvs) = JObj (map (map_prod id of_qval) kvs)"

text \<open>\<^verbatim>\<open>req.query.k\<close>\<close>

definition qget :: "request \<Rightarrow> string \<Rightarrow> jsval" where
  "qget req k = (case query req k of None \<Rightarrow> Undefined | Some v \<Rightarrow> of_qval v)"

subsection \<open>The conversion \<^verbatim>\<open>Number(v)\<close>\<close>

text \<open>
  \<^verbatim>\<open>Number\<close> applied to a query value converts it to a string first (an array joins
  the strings of its elements with commas, a plain object gives
  \<^verbatim>\<open>[object Object]\<close>) and then reads the string as a numeric literal of the language:
  optional white space around an optionally signed decimal literal (with optional
  fraction and exponent), \<^verbatim>\<open>Infinity\<close>, or an unsigned binary, octal or hexadecimal
  integer literal. The empty string reads as 0; anything else is \<^verbatim>\<open>NaN\<close>.
  Only the white space characters below code 256 are covered.
\<close>

fun join_with :: "string \<Rightarrow> string list \<Rightarrow> string" where
  "join_with sep [] = []"
| "join_with sep [x] = x"
| "join_with sep (x # y # ys) = x @ sep @ join_with sep (y # ys)"

primrec ToString :: "qval \<Rightarrow> string" where
  "ToString (QStr s) = s"
| "ToString (QArr xs) = join_with '','' (map ToString xs)"
| "ToString (QObj kvs) = ''[object Object]''"

definition is_ws :: "char \<Rightarrow> bool" where
  "is_ws c = (of_char c \<in> {9, 10, 11, 12, 13, 32, 160 :: nat})"

definition trim :: "string \<Rightarrow> string" where
  "trim s = rev (dropWhile is_ws (rev (dropWhile is_ws s)))"

definition digit_of :: "nat \<Rightarrow> char \<Rightarrow> nat option" where
  "digit_of b c =
     (let n = (of_char c :: nat);
          d = (if 48 \<le> n \<and> n \<le> 57 then Some (n - 48)
               else if 97 \<le> n \<and> n \<le> 102 then Some (n - 87)
               else if 65 \<le> n \<and> n \<le> 70 then Some (n - 55)
               else None)
      in case d of None \<Rightarrow> None | Some v \<Rightarrow> if v < b then Some v else None)"

fun digits_acc :: "nat \<Rightarrow> nat \<Rightarrow> string \<Rightarrow> nat option" where
  "digits_acc b acc [] = Some acc"
| "digits_acc b acc (c # cs) =
     (case digit_of b c of None \<Rightarrow> None | Some d \<Rightarrow> digits_acc b (acc * b + d) cs)"

text \<open>A non-empty sequence of digits of base \<open>b\<close>, and a possibly empty one.\<close>

definition digits :: "nat \<Rightarrow> string \<Rightarrow> nat option" where
  "digits b s = (if s = [] then None else digits_acc b 0 s)"

definition opt_digits :: "string \<Rightarrow> nat option" where
  "opt_digits s = digits_acc 10 0 s"

text \<open>Splitting at the first character that satisfies \<open>P\<close>, if there is one.\<close>

definition split_at :: "(char \<Rightarrow> bool) \<Rightarrow> string \<Rightarrow> string \<times> string option" where
  "split_at P s =
     (takeWhile (\<lambda>c. \<not> P c) s,
      case dropWhile (\<lambda>c. \<not> P c) s of [] \<Rightarrow> None | c # r \<Rightarrow> Some r)"

definition exponent :: "string \<Rightarrow> int option" where
  "exponent s =
     (case s of
        [] \<Rightarrow> None
      | c # r \<Rightarrow>
          if c = CHR ''+'' then map_option int (digits 10 r)
          else if c = CHR ''-'' then map_option (\<lambda>n. - int n) (digits 10 r)
          else map_option int (digits 10 s))"

definition mantissa :: "string \<Rightarrow> rat option" where
  "mantissa s =
     (case split_at (\<lambda>c. c = CHR ''.'') s of
        (ip, None) \<Rightarrow> map_option of_nat (digits 10 ip)
      | (ip, Some fp) \<Rightarrow>
          if ip = [] \<and> fp = [] then None
          else (case (opt_digits ip, opt_digits fp) of
                  (Some i, Some f) \<Rightarrow> Some (of_nat i + of_nat f / 10 ^ length fp)
                | _ \<Rightarrow> None))"

definition scale10 :: "rat \<Rightarrow> int \<Rightarrow> rat" where
  "scale10 q k = (if 0 \<le> k then q * 10 ^ nat k else q / 10 ^ nat (- k))"

definition unsigned_decimal :: "string \<Rightarrow> jsnum" where
  "unsigned_decimal s =
     (if s = ''Infinity'' then PosInf
      else case split_at (\<lambda>c. c = CHR ''e'' \<or> c = CHR ''E'') s of
             (m, None) \<Rightarrow> (case mantissa m of Some q \<Rightarrow> Fin q | None \<Rightarrow> NaN)
           | (m, Some e) \<Rightarrow>
               (case (mantissa m, exponent e) of
                  (Some q, Some k) \<Rightarrow> Fin (scale10 q k)
                | _ \<Rightarrow> NaN))"

fun negate :: "jsnum \<Rightarrow> jsnum" where
  "negate NaN = NaN"
| "negate PosInf = NegInf"
| "negate NegInf = PosInf"
| "negate (Fin q) = Fin (- q)"

definition signed_decimal :: "string \<Rightarrow> jsnum" where
  "signed_decimal s =
     (case s of
        [] \<Rightarrow> NaN
      | c # r \<Rightarrow>
          if c = CHR ''+'' then unsigned_decimal r
          else if c = CHR ''-'' then negate (unsigned_decimal r)
          else unsigned_decimal s)"

definition radix_of :: "char \<Rightarrow> nat option" where
  "radix_of c =
     (if c = CHR ''x'' \<or> c = CHR ''X'' then Some 16
      else if c = CHR ''o'' \<or> c = CHR ''O'' then Some 8
      else if c = CHR ''b'' \<or> c = CHR ''B'' then Some 2
      else None)"

definition numeric_literal :: "string \<Rightarrow> jsnum" where
  "numeric_literal s =
     (case s of
        c # x # r \<Rightarrow>
          (case (if c = CHR ''0'' then radix_of x else None) of
             Some b \<Rightarrow> (case digits b r of Some n \<Rightarrow> Fin (of_nat n) | None \<Rightarrow> NaN)
           | None \<Rightarrow> signed_decimal s)
      | _ \<Rightarrow> signed_decimal s)"

definition StringToNumber :: "string \<Rightarrow> jsnum" where
  "StringToNumber s = (let t = trim s in if t = [] then Fin 0 else numeric_literal t)"

definition Number :: "qval \<Rightarrow> jsnum" where
  "Number v = StringToNumber (ToString v)"

section \<open>Query normalisation\<close>

text \<open>The result of \<^verbatim>\<open>parseListParams\<close>; \<open>p_continue\<close> is the property
  \<^verbatim>\<open>_continue\<close> of the source.\<close>

record listparams =
  namespace :: jsval
  labelSelector :: jsval
  fieldSelector :: jsval
  limit :: jsval
  p_continue :: jsval
  resourceVersion :: jsval

definition parseListParams :: "request \<Rightarrow> listparams" where
  "parseListParams req =
     \<lparr> namespace = js_or (qget req ''namespace'') Null,
       labelSelector = js_or (qget req ''labelSelector'') Undefined,
       fieldSelector = js_or (qget req ''fieldSelector'') Undefined,
       limit = (case query req ''limit'' of
                  None \<Rightarrow> Undefined
                | Some v \<Rightarrow> if truthy (of_qval v) then JNum (Number v) else Undefined),
       p_continue = js_or (qget req ''continue'') Undefined,
       resourceVersion = js_or (qget req ''resourceVersion'') Undefined \<rparr>"

section \<open>Routes\<close>

text \<open>
  The control plane is reached through three API clients. A call names the client, the
  method and the positional arguments, as the handler writes them. What the call
  does is a parameter \<open>kube\<close> of the handlers: the awaited promise either rejects
  with an error value (\<open>Inl\<close>) or resolves to a raw response (\<open>Inr\<close>).
\<close>

datatype client = Core | Apps | Net

datatype kubecall = KubeCall (client: client) (operation: string) (args: "jsval list")

type_synonym kube = "kubecall \<Rightarrow> jsval + jsval"

datatype resource =
  Namespaces | Pods | Services | Nodes | Deployments | DaemonSets | StatefulSets
  | Ingresses | Events

text \<open>The list call of each route \<^verbatim>\<open>/api/<resource>\<close>, branch by branch.\<close>

fun list_call :: "resource \<Rightarrow> listparams \<Rightarrow> kubecall" where
  "list_call Namespaces p =
     KubeCall Core ''listNamespace''
       [Undefined, Undefined, p_continue p, fieldSelector p, labelSelector p, limit p,
        resourceVersion p]"
| "list_call Pods p =
     (if truthy (namespace p)
      then KubeCall Core ''listNamespacedPod''
             [namespace p, Undefined, Undefined, p_continue p, fieldSelector p,
              labelSelector p, limit p, resourceVersion p]
      else KubeCall Core ''listPodForAllNamespaces''
             [Undefined, Undefined, p_continue p, fieldSelector p, labelSelector p,
              limit p, resourceVersion p])"
| "list_call Services p =
     (if truthy (namespace p)
      then KubeCall Core ''listNamespacedService''
             [namespace p, Undefined, Undefined, p_continue p, fieldSelector p,
              labelSelector p, limit p, resourceVersion p]
      else KubeCall Core ''listServiceForAllNamespaces''
             [Undefined, Undefined, p_continue p, fieldSelector p, labelSelector p,
              limit p, resourceVersion p])"
| "list_call Nodes p =
     KubeCall Core ''listNode''
       [Undefined, Undefined, p_continue p, fieldSelector p, labelSelector p, limit p,
        resourceVersion p]"
| "list_call Deployments p =
     (if truthy (namespace p)
      then KubeCall Apps ''listNamespacedDeployment''
             [namespace p, Undefined, Undefined, p_continue p, fieldSelector p,
              labelSelector p, limit p, resourceVersion p]
      else KubeCall Apps ''listDeploymentForAllNamespaces''
             [Undefined, Undefined, p_continue p, fieldSelector p, labelSelector p,
              limit p, resourceVersion p])"
| "list_call DaemonSets p =
     (if truthy (namespace p)
      then KubeCall Apps ''listNamespacedDaemonSet''
             [namespace p, Undefined, Undefined, p_continue p, fieldSelector p,
              labelSelector p, limit p, resourceVersion p]
      else KubeCall Apps ''listDaemonSetForAllNamespaces''
             [Undefined, Undefined, p_continue p, fieldSelector p, labelSelector p,
              limit p, resourceVersion p])"
| "list_call StatefulSets p =
     (if truthy (namespace p)
      then KubeCall Apps ''listNamespacedStatefulSet''
             [namespace p, Undefined, Undefined, p_continue p, fieldSelector p,
              labelSelector p, limit p, resourceVersion p]
      else KubeCall Apps ''listStatefulSetForAllNamespaces''
             [Undefined, Undefined, p_continue p, fieldSelector p, labelSelector p,
              limit p, resourceVersion p])"
| "list_call Ingresses p =
     (if truthy (namespace p)
      then KubeCall Net ''listNamespacedIngress''
             [namespace p, Undefined, Undefined, p_continue p, fieldSelector p,
              labelSelector p, limit p, resourceVersion p]
      else KubeCall Net ''listIngressForAllNamespaces''
             [Undefined, Undefined, p_continue p, fieldSelector p, labelSelector p,
              limit p, resourceVersion p])"
| "list_call Events p =
     (if truthy (namespace p)
      then KubeCall Core ''listNamespacedEvent''
             [namespace p, Undefined, Undefined, p_continue p, fieldSelector p,
              labelSelector p, limit p, resourceVersion p]
      else KubeCall Core ''listEventForAllNamespaces''
             [Undefined, Undefined, p_continue p, fieldSelector p, labelSelector p,
              limit p, resourceVersion p])"

text \<open>A list handler: \<^verbatim>\<open>try { ...; resp = await <call>; sendList(res, resp) }
  catch (e) { sendError(res, e) }\<close>.\<close>

definition list_handler :: "kube \<Rightarrow> resource \<Rightarrow> request \<Rightarrow> response \<Rightarrow> response" where
  "list_handler kube r req res =
     (case thenE (kube (list_call r (parseListParams req))) (sendList res) of
        Inl e \<Rightarrow> sendError res e
      | Inr res' \<Rightarrow> res')"

text \<open>\<^verbatim>\<open>app.get("/api/health", (req, res) => res.json({ ok: true }))\<close>\<close>

definition health_handler :: "request \<Rightarrow> response \<Rightarrow> response" where
  "health_handler req res = res_json res (JObj [(''ok'', JBool True)])"

datatype route = Health | List resource

fun route_path :: "route \<Rightarrow> string" where
  "route_path Health = ''/api/health''"
| "route_path (List Namespaces) = ''/api/namespaces''"
| "route_path (List Pods) = ''/api/pods''"
| "route_path (List Services) = ''/api/services''"
| "route_path (List Nodes) = ''/api/nodes''"
| "route_path (List Deployments) = ''/api/deployments''"
| "route_path (List DaemonSets) = ''/api/daemonsets''"
| "route_path (List StatefulSets) = ''/api/statefulsets''"
| "route_path (List Ingresses) = ''/api/ingresses''"
| "route_path (List Events) = ''/api/events''"

text \<open>Serving a request on a route, from a fresh response.\<close>

fun serve :: "kube \<Rightarrow> route \<Rightarrow> request \<Rightarrow> response" where
  "serve kube Health req = health_handler req fresh_response"
| "serve kube (List r) req = list_handler kube r req fresh_response"

section \<open>Configuration loading\<close>

text \<open>
  \<^verbatim>\<open>loadKubeConfigRobust\<close> reads the process environment and the file system and
  calls one of three loaders of the client library. The platform and the library are
  parameters: \<open>env\<close> is \<^verbatim>\<open>process.env\<close>, \<open>existsSync\<close> is \<^verbatim>\<open>fs.existsSync\<close>,
  \<open>path_join\<close> is \<^verbatim>\<open>path.join\<close>; a loader either throws (\<open>Inl\<close>) or leaves a
  loaded configuration (\<open>Inr\<close>). The function has no \<^verbatim>\<open>try\<close>: what a loader
  throws leaves the function.
\<close>

record platform =
  env :: "string \<Rightarrow> string option"
  existsSync :: "string \<Rightarrow> bool"
  path_join :: "string list \<Rightarrow> string"

record 'c kubelib =
  loadFromCluster :: "jsval + 'c"
  loadFromFile :: "string \<Rightarrow> jsval + 'c"
  loadFromDefault :: "jsval + 'c"

text \<open>Truthiness of an environment variable (\<^verbatim>\<open>!!x\<close>): set and not the empty
  string. \<open>env_or\<close> is \<^verbatim>\<open>x || d\<close> on such a value, and \<open>filter_Boolean\<close> is
  \<^verbatim>\<open>.filter(Boolean)\<close> on an array whose elements are strings or \<^verbatim>\<open>undefined\<close>.\<close>

fun Boolean :: "string option \<Rightarrow> bool" where
  "Boolean None = False"
| "Boolean (Some s) = (s \<noteq> [])"

fun env_or :: "string option \<Rightarrow> string \<Rightarrow> string" where
  "env_or None d = d"
| "env_or (Some s) d = (if s = [] then d else s)"

fun filter_Boolean :: "string option list \<Rightarrow> string list" where
  "filter_Boolean [] = []"
| "filter_Boolean (None # xs) = filter_Boolean xs"
| "filter_Boolean (Some s # xs) = (if s = [] then filter_Boolean xs else s # filter_Boolean xs)"

definition saDir :: string where
  "saDir = ''/var/run/secrets/kubernetes.io/serviceaccount''"

definition inCluster :: "platform \<Rightarrow> bool" where
  "inCluster pf =
     (Boolean (env pf ''KUBERNETES_SERVICE_HOST'')
      \<and> existsSync pf (path_join pf [saDir, ''token''])
      \<and> existsSync pf (path_join pf [saDir, ''ca.crt'']))"

definition candidates :: "platform \<Rightarrow> string list" where
  "candidates pf =
     (let home = env_or (env pf ''HOME'') ''/root''
      in filter (existsSync pf)
           (filter_Boolean
              [env pf ''KUBECONFIG'',
               Some ''/etc/kubernetes/admin.conf'',
               Some (path_join pf [home, ''.kube'', ''config'']),
               Some ''/root/.kube/config'',
               Some ''/home/administrator/.kube/config'']))"

definition loadKubeConfigRobust :: "'c kubelib \<Rightarrow> platform \<Rightarrow> jsval + 'c" where
  "loadKubeConfigRobust lib pf =
     (if inCluster pf then loadFromCluster lib
      else (case candidates pf of
              c # cs \<Rightarrow> loadFromFile lib c
            | [] \<Rightarrow> loadFromDefault lib))"

section \<open>Vocabulary of the properties\<close>

text \<open>A property of the JSON payload of a response (\<^verbatim>\<open>undefined\<close> when nothing was sent).\<close>

definition envelope :: "response \<Rightarrow> string \<Rightarrow> jsval" where
  "envelope res k = (case payload res of None \<Rightarrow> Undefined | Some obj \<Rightarrow> getprop obj k)"

text \<open>The local constants \<^verbatim>\<open>body\<close> and \<^verbatim>\<open>items\<close> of \<^verbatim>\<open>sendList\<close>.\<close>

definition list_body :: "jsval \<Rightarrow> jsval" where
  "list_body apiResp = js_or (getprop apiResp ''body'') (JObj [])"

definition list_items :: "jsval \<Rightarrow> jsval" where
  "list_items apiResp = js_or (getprop (list_body apiResp) ''items'') (JArr [])"

text \<open>The arguments that every list call ends with, and the names of the two variants
  of each route as the handlers spell them. The routes \<^verbatim>\<open>/api/namespaces\<close> and
  \<^verbatim>\<open>/api/nodes\<close> have no namespaced variant.\<close>

definition common_args :: "listparams \<Rightarrow> jsval list" where
  "common_args p =
     [Undefined, Undefined, p_continue p, fieldSelector p, labelSelector p, limit p,
      resourceVersion p]"

fun client_of :: "resource \<Rightarrow> client" where
  "client_of Deployments = Apps"
| "client_of DaemonSets = Apps"
| "client_of StatefulSets = Apps"
| "client_of Ingresses = Net"
| "client_of r = Core"

fun cluster_method :: "resource \<Rightarrow> string" where
  "cluster_method Namespaces = ''listNamespace''"
| "cluster_method Pods = ''listPodForAllNamespaces''"
| "cluster_method Services = ''listServiceForAllNamespaces''"
| "cluster_method Nodes = ''listNode''"
| "cluster_method Deployments = ''listDeploymentForAllNamespaces''"
| "cluster_method DaemonSets = ''listDaemonSetForAllNamespaces''"
| "cluster_method StatefulSets = ''listStatefulSetForAllNamespaces''"
| "cluster_method Ingresses = ''listIngressForAllNamespaces''"
| "cluster_method Events = ''listEventForAllNamespaces''"

fun namespaced_method :: "resource \<Rightarrow> string option" where
  "namespaced_method Namespaces = None"
| "namespaced_method Pods = Some ''listNamespacedPod''"
| "namespaced_method Services = Some ''listNamespacedService''"
| "namespaced_method Nodes = None"
| "namespaced_method Deployments = Some ''listNamespacedDeployment''"
| "namespaced_method DaemonSets = Some ''listNamespacedDaemonSet''"
| "namespaced_method StatefulSets = Some ''listNamespacedStatefulSet''"
| "namespaced_method Ingresses = Some ''listNamespacedIngress''"
| "namespaced_method Events = Some ''listNamespacedEvent''"

text \<open>The three strategies of the configuration loader. The library \<open>tracing\<close>
  never throws and answers with the loader that was called; \<open>run\<close> calls the
  loader of a strategy.\<close>

datatype strategy = UseCluster | UseFile string | UseDefault

definition tracing :: "strategy kubelib" where
  "tracing = \<lparr> loadFromCluster = Inr UseCluster,
               loadFromFile = (\<lambda>f. Inr (UseFile f)),
               loadFromDefault = Inr UseDefault \<rparr>"

fun run :: "'c kubelib \<Rightarrow> strategy \<Rightarrow> jsval + 'c" where
  "run lib UseCluster = loadFromCluster lib"
| "run lib (UseFile f) = loadFromFile lib f"
| "run lib UseDefault = loadFromDefault lib"

text \<open>The paths that are tried, in order, before their existence is looked at: the
  override \<^verbatim>\<open>KUBECONFIG\<close>, then the four well-known paths; empty ones are dropped.\<close>

definition candidate_paths :: "platform \<Rightarrow> string list" where
  "candidate_paths pf =
     filter (\<lambda>p. p \<noteq> [])
       ((case env pf ''KUBECONFIG'' of None \<Rightarrow> [] | Some k \<Rightarrow> [k])
        @ [''/etc/kubernetes/admin.conf'',
           path_join pf [env_or (env pf ''HOME'') ''/root'', ''.kube'', ''config''],
           ''/root/.kube/config'',
           ''/home/administrator/.kube/config''])"

subsection \<open>Sample inputs\<close>

text \<open>A raw list response with two items and full metadata, one whose body is empty,
  and one whose continuation token is the empty string.\<close>

definition pod_list :: jsval where
  "pod_list = JObj [(''body'', JObj
      [(''items'', JArr [JStr ''pod-a'', JStr ''pod-b'']),
       (''metadata'', JObj [(''continue'', JStr ''tok''),
                            (''resourceVersion'', JStr ''42'')])])]"

definition bare_list :: jsval where
  "bare_list = JObj [(''body'', JObj [])]"


text \<open>The responses that \<^verbatim>\<open>sendList\<close> gives for the first two.\<close>

definition pod_envelope :: response where
  "pod_envelope =
     \<lparr> statusCode = JNum (Fin 200),
       payload = Some (JObj [(''count'', JNum (Fin 2)), (''continue'', JStr ''tok''),
                             (''resourceVersion'', JStr ''42''),
                             (''items'', JArr [JStr ''pod-a'', JStr ''pod-b''])]) \<rparr>"

definition bare_envelope :: response where
  "bare_envelope =
     \<lparr> statusCode = JNum (Fin 200),
       payload = Some (JObj [(''count'', JNum (Fin 0)), (''continue'', Null),
                             (''resourceVersion'', Null), (''items'', JArr [])]) \<rparr>"



definition refused :: jsval where
  "refused = JObj [(''message'', JStr ''connect ECONNREFUSED 127.0.0.1:6443'')]"

text \<open>Requests: \<^verbatim>\<open>?namespace=kube-system&limit=2\<close>, no parameter at all,
  \<^verbatim>\<open>?limit=2.5\<close> and \<^verbatim>\<open>?limit=abc\<close>.\<close>

definition scoped_request :: request where
  "scoped_request =
     \<lparr> query = [''namespace'' \<mapsto> QStr ''kube-system'', ''limit'' \<mapsto> QStr ''2''] \<rparr>"

definition plain_request :: request where
  "plain_request = \<lparr> query = Map.empty \<rparr>"



text \<open>Platforms, all with \<^verbatim>\<open>path.join\<close> on segments that need no normalisation:
  one where the host marker is set to the empty string and both service-account files
  exist, one where only \<^verbatim>\<open>/etc/kubernetes/admin.conf\<close> exists, and one inside a
  cluster. The library \<open>strict\<close> cannot read the file it is given.\<close>

definition empty_marker :: platform where
  "empty_marker =
     \<lparr> env = [''KUBERNETES_SERVICE_HOST'' \<mapsto> []],
       existsSync = (\<lambda>p. p = ''/var/run/secrets/kubernetes.io/serviceaccount/token''
                        \<or> p = ''/var/run/secrets/kubernetes.io/serviceaccount/ca.crt''),
       path_join = join_with ''/'' \<rparr>"

definition admin_only :: platform where
  "admin_only =
     \<lparr> env = [''HOME'' \<mapsto> ''/home/administrator''],
       existsSync = (\<lambda>p. p = ''/etc/kubernetes/admin.conf''),
       path_join = join_with ''/'' \<rparr>"

definition in_pod :: platform where
  "in_pod =
     \<lparr> env = [''KUBERNETES_SERVICE_HOST'' \<mapsto> ''10.96.0.1''],
       existsSync = (\<lambda>p. p = ''/var/run/secrets/kubernetes.io/serviceaccount/token''
                        \<or> p = ''/var/run/secrets/kubernetes.io/serviceaccount/ca.crt''),
       path_join = join_with ''/'' \<rparr>"

definition strict :: "strategy kubelib" where
  "strict = \<lparr> loadFromCluster = Inr UseCluster,
              loadFromFile = (\<lambda>f. Inl (JObj [(''message'', JStr ''EACCES: permission denied'')])),
              loadFromDefault = Inr UseDefault \<rparr>"

section \<open>Basic facts\<close>

lemmas eval_defs =
  sendList_def sendError_def propget_def optget_def thenE_def js_or_def
  fresh_response_def res_json_def res_status_def envelope_def Let_def

lemma truthy_not_nullish: "truthy v \<Longrightarrow> \<not> nullish v"
  by (cases v) simp_all

lemma js_or_not_nullish: "\<not> nullish d \<Longrightarrow> \<not> nullish (js_or v d)"
  by (simp add: js_or_def truthy_not_nullish)

lemma getprop_falsy: "\<not> truthy b \<Longrightarrow> k \<noteq> ''length'' \<Longrightarrow> getprop b k = Undefined"
  by (cases b) simp_all

lemma getprop_js_or_empty: "k \<noteq> ''length'' \<Longrightarrow> getprop (js_or b (JObj [])) k = getprop b k"
  by (simp add: js_or_def getprop_falsy)

lemma truthy_of_qval: "truthy (of_qval v) \<longleftrightarrow> v \<noteq> QStr []"
  by (cases v) simp_all

lemma response_eq:
  "res\<lparr> statusCode := c, payload := p \<rparr> = \<lparr> statusCode = c, payload = p \<rparr>"
  by (cases res) simp

subsection \<open>\<^verbatim>\<open>sendList\<close> throws exactly on a response that is undefined or null\<close>

lemma sendList_Inl:
  "nullish apiResp \<Longrightarrow> sendList res apiResp = Inl (TypeError apiResp ''body'')"
  by (simp add: sendList_def propget_def thenE_def)

lemma sendList_Inr:
  assumes "\<not> nullish apiResp"
  shows "sendList res apiResp =
           Inr (res_json res (JObj
             [(''count'', getprop (list_items apiResp) ''length''),
              (''continue'',
                 js_or (optget (getprop (list_body apiResp) ''metadata'') ''continue'') Null),
              (''resourceVersion'',
                 js_or (optget (getprop (list_body apiResp) ''metadata'') ''resourceVersion'')
                   Null),
              (''items'', list_items apiResp)]))"
proof -
  have b: "\<not> nullish (list_body apiResp)"
    unfolding list_body_def by (rule js_or_not_nullish) simp
  have i: "\<not> nullish (list_items apiResp)"
    unfolding list_items_def by (rule js_or_not_nullish) simp
  show ?thesis
    using assms b i
    by (simp add: sendList_def propget_def thenE_def Let_def list_body_def list_items_def)
qed

lemma sendList_succeeds: "sendList res apiResp = Inr res' \<Longrightarrow> \<not> nullish apiResp"
  by (cases "nullish apiResp") (simp_all add: sendList_Inl)

lemma list_items_absent:
  "getprop (getprop apiResp ''body'') ''items'' = Undefined \<Longrightarrow> list_items apiResp = JArr []"
  by (simp add: list_items_def list_body_def getprop_js_or_empty js_or_def)

lemma list_items_array:
  "getprop (getprop apiResp ''body'') ''items'' = JArr xs \<Longrightarrow> list_items apiResp = JArr xs"
  by (simp add: list_items_def list_body_def getprop_js_or_empty) (simp add: js_or_def)


subsection \<open>What a list handler answers\<close>

lemma serve_rejected:
  "kube (list_call r (parseListParams req)) = Inl err \<Longrightarrow>
     serve kube (List r) req = sendError fresh_response err"
  by (simp add: list_handler_def thenE_def)

lemma serve_resolved:
  "kube (list_call r (parseListParams req)) = Inr apiResp \<Longrightarrow>
     sendList fresh_response apiResp = Inr res' \<Longrightarrow>
     serve kube (List r) req = res'"
  by (simp add: list_handler_def thenE_def)

lemma serve_one_call:
  "kube (list_call r (parseListParams req)) = kube' (list_call r (parseListParams req)) \<Longrightarrow>
     serve kube (List r) req = serve kube' (List r) req"
  by (simp add: list_handler_def)

lemma sendError_status: "statusCode (sendError res err) = envelope (sendError res err) ''status''"
  by (simp add: sendError_def envelope_def res_json_def res_status_def Let_def)

lemma serve_success_or_error:
  "(\<exists>apiResp res'. kube (list_call r (parseListParams req)) = Inr apiResp
       \<and> sendList fresh_response apiResp = Inr res' \<and> serve kube (List r) req = res')
   \<or> (\<exists>e. serve kube (List r) req = sendError fresh_response e)"
  by (cases "kube (list_call r (parseListParams req))";
      cases "sendList fresh_response (projr (kube (list_call r (parseListParams req))))")
     (auto simp: list_handler_def thenE_def)

lemma success_has_no_error:
  "sendList res apiResp = Inr res' \<Longrightarrow> envelope res' ''error'' = Undefined"
  using sendList_Inr [of apiResp res] sendList_succeeds [of res apiResp res']
  by (auto simp: envelope_def res_json_def)

subsection \<open>The namespace parameter and the limit parameter\<close>

lemma namespace_absent:
  "query req ''namespace'' = None \<or> query req ''namespace'' = Some (QStr []) \<Longrightarrow>
     namespace (parseListParams req) = Null"
  by (auto simp: parseListParams_def qget_def js_or_def)

lemma namespace_present:
  "query req ''namespace'' = Some v \<Longrightarrow> v \<noteq> QStr [] \<Longrightarrow>
     namespace (parseListParams req) = of_qval v"
  by (simp add: parseListParams_def qget_def js_or_def truthy_of_qval)

lemma list_call_falsy:
  "\<not> truthy (namespace p) \<or> namespaced_method r = None \<Longrightarrow>
     list_call r p = KubeCall (client_of r) (cluster_method r) (common_args p)"
  by (cases r) (auto simp: common_args_def)

lemma list_call_truthy:
  "truthy (namespace p) \<Longrightarrow> namespaced_method r = Some m \<Longrightarrow>
     list_call r p = KubeCall (client_of r) m (namespace p # common_args p)"
  by (cases r) (auto simp: common_args_def)



lemma Number_two: "Number (QStr ''2'') = Fin 2"
  by code_simp




subsection \<open>The configuration loader\<close>

lemma filter_Boolean_Some:
  "filter_Boolean (map Some xs) = filter (\<lambda>p. p \<noteq> []) xs"
  by (induction xs) simp_all

lemma filter_Boolean_Cons:
  "filter_Boolean (a # map Some xs) =
     filter (\<lambda>p. p \<noteq> []) ((case a of None \<Rightarrow> [] | Some k \<Rightarrow> [k]) @ xs)"
  using filter_Boolean_Some [of xs] by (cases a) simp_all

lemma candidates_filter: "candidates pf = filter (existsSync pf) (candidate_paths pf)"
proof -
  let ?fixed = "[''/etc/kubernetes/admin.conf'',
           path_join pf [env_or (env pf ''HOME'') ''/root'', ''.kube'', ''config''],
           ''/root/.kube/config'', ''/home/administrator/.kube/config'']"
  have "candidates pf =
          filter (existsSync pf) (filter_Boolean (env pf ''KUBECONFIG'' # map Some ?fixed))"
    unfolding candidates_def Let_def by (simp only: list.map)
  also have "\<dots> = filter (existsSync pf) (candidate_paths pf)"
    unfolding candidate_paths_def by (simp only: filter_Boolean_Cons)
  finally show ?thesis .
qed

lemma find_filter: "find P xs = (case filter P xs of [] \<Rightarrow> None | x # _ \<Rightarrow> Some x)"
  by (induction xs) simp_all

lemma loader_run:
  "loadKubeConfigRobust lib pf =
     run lib (if inCluster pf then UseCluster
              else case find (existsSync pf) (candidate_paths pf) of
                     Some f \<Rightarrow> UseFile f | None \<Rightarrow> UseDefault)"
  by (simp add: loadKubeConfigRobust_def candidates_filter find_filter split: list.splits)

lemma inCluster_iff:
  "inCluster pf \<longleftrightarrow>
     (\<exists>h. env pf ''KUBERNETES_SERVICE_HOST'' = Some h \<and> h \<noteq> [])
     \<and> existsSync pf (path_join pf [saDir, ''token''])
     \<and> existsSync pf (path_join pf [saDir, ''ca.crt''])"
  by (cases "env pf ''KUBERNETES_SERVICE_HOST''") (simp_all add: inCluster_def)

lemma run_tracing: "run tracing s = Inr s"
  by (cases s) (simp_all add: tracing_def)

section \<open>The claims\<close>

text \<open>
  \<^bold>\<open>C1.\<close> \<^verbatim>\<open>sendList\<close> sends an envelope for every raw response that is not
  \<^verbatim>\<open>undefined\<close> or \<^verbatim>\<open>null\<close> (for those it throws, and nothing is sent). Whenever
  the \<^verbatim>\<open>items\<close> of the envelope is an array, \<^verbatim>\<open>count\<close> is the length of that
  array, which is the case when the upstream \<^verbatim>\<open>items\<close> is an array; and when the body
  of the upstream response has no \<^verbatim>\<open>items\<close> property (or the response has no body),
  \<^verbatim>\<open>count\<close> is 0 and \<^verbatim>\<open>items\<close> is the empty array.
\<close>

theorem sendList_count:
  assumes "\<not> nullish apiResp"
  shows "\<exists>res'. sendList res apiResp = Inr res'
       \<and> (\<forall>xs. envelope res' ''items'' = JArr xs \<longrightarrow>
            envelope res' ''count'' = JNum (Fin (of_nat (length xs))))
       \<and> (\<forall>xs. getprop (getprop apiResp ''body'') ''items'' = JArr xs \<longrightarrow>
            envelope res' ''items'' = JArr xs
            \<and> envelope res' ''count'' = JNum (Fin (of_nat (length xs))))
       \<and> (getprop (getprop apiResp ''body'') ''items'' = Undefined \<longrightarrow>
            envelope res' ''count'' = JNum (Fin 0) \<and> envelope res' ''items'' = JArr [])"
proof -
  obtain res' where r: "sendList res apiResp = Inr res'"
    using sendList_Inr [OF assms, of res] by simp
  have c: "envelope res' ''count'' = getprop (list_items apiResp) ''length''"
    using r sendList_Inr [OF assms, of res] by (auto simp: envelope_def res_json_def)
  have i: "envelope res' ''items'' = list_items apiResp"
    using r sendList_Inr [OF assms, of res] by (auto simp: envelope_def res_json_def)
  have "(\<forall>xs. envelope res' ''items'' = JArr xs \<longrightarrow>
            envelope res' ''count'' = JNum (Fin (of_nat (length xs))))"
    by (auto simp: c i)
  moreover have "(\<forall>xs. getprop (getprop apiResp ''body'') ''items'' = JArr xs \<longrightarrow>
            envelope res' ''items'' = JArr xs
            \<and> envelope res' ''count'' = JNum (Fin (of_nat (length xs))))"
    using list_items_array [of apiResp] by (auto simp: c i)
  moreover have "(getprop (getprop apiResp ''body'') ''items'' = Undefined \<longrightarrow>
            envelope res' ''count'' = JNum (Fin 0) \<and> envelope res' ''items'' = JArr [])"
    using list_items_absent [of apiResp] by (auto simp: c i)
  ultimately show ?thesis
    using r by blast
qed

lemma sendList_pod_list: "sendList fresh_response pod_list = Inr pod_envelope"
  by (simp add: pod_list_def pod_envelope_def eval_defs)

lemma sendList_bare_list: "sendList fresh_response bare_list = Inr bare_envelope"
  by (simp add: bare_list_def bare_envelope_def eval_defs)

theorem sendList_count_witness:
  "\<not> nullish pod_list
   \<and> sendList fresh_response pod_list = Inr pod_envelope
   \<and> getprop (getprop pod_list ''body'') ''items'' = JArr [JStr ''pod-a'', JStr ''pod-b'']
   \<and> envelope pod_envelope ''items'' = JArr [JStr ''pod-a'', JStr ''pod-b'']
   \<and> envelope pod_envelope ''count'' = JNum (Fin 2)
   \<and> \<not> nullish bare_list
   \<and> sendList fresh_response bare_list = Inr bare_envelope
   \<and> getprop (getprop bare_list ''body'') ''items'' = Undefined
   \<and> envelope bare_envelope ''count'' = JNum (Fin 0)
   \<and> envelope bare_envelope ''items'' = JArr []"
proof -
  have 1: "\<not> nullish pod_list"
    by (simp add: pod_list_def)
  have 2: "getprop (getprop pod_list ''body'') ''items'' = JArr [JStr ''pod-a'', JStr ''pod-b'']"
    by (simp add: pod_list_def)
  have 3: "\<not> nullish bare_list"
    by (simp add: bare_list_def)
  have 4: "getprop (getprop bare_list ''body'') ''items'' = Undefined"
    by (simp add: bare_list_def)
  show ?thesis
    using 1 2 3 4 sendList_pod_list sendList_bare_list
      sendList_count [OF 1, of fresh_response] sendList_count [OF 3, of fresh_response]
    by simp
qed

text \<open>
  \<^bold>\<open>C2\<close> (amended). On every list route, when the \<^verbatim>\<open>namespace\<close> parameter is
  absent or the empty string, the cluster-wide method is called with the seven common
  arguments. On the seven routes that have a namespaced variant, when
  \<^verbatim>\<open>namespace\<close> is present and not the empty string, the namespaced method is
  called with exactly that value as first argument. The routes
  \<^verbatim>\<open>/api/namespaces\<close> and \<^verbatim>\<open>/api/nodes\<close> have no namespaced variant and call the
  cluster-wide method whatever the parameter is.
\<close>

theorem list_call_scope:
  "(query req ''namespace'' = None \<or> query req ''namespace'' = Some (QStr [])
      \<or> namespaced_method r = None \<longrightarrow>
      list_call r (parseListParams req) =
        KubeCall (client_of r) (cluster_method r) (common_args (parseListParams req)))
   \<and> (\<forall>v m. query req ''namespace'' = Some v \<and> v \<noteq> QStr []
          \<and> namespaced_method r = Some m \<longrightarrow>
      list_call r (parseListParams req) =
        KubeCall (client_of r) m (of_qval v # common_args (parseListParams req)))"
proof (intro conjI impI allI)
  assume a: "query req ''namespace'' = None \<or> query req ''namespace'' = Some (QStr [])
      \<or> namespaced_method r = None"
  have "\<not> truthy (namespace (parseListParams req)) \<or> namespaced_method r = None"
    using a namespace_absent [of req] by auto
  then show "list_call r (parseListParams req) =
        KubeCall (client_of r) (cluster_method r) (common_args (parseListParams req))"
    by (rule list_call_falsy)
next
  fix v m
  assume a: "query req ''namespace'' = Some v \<and> v \<noteq> QStr []
      \<and> namespaced_method r = Some m"
  then have n: "namespace (parseListParams req) = of_qval v"
    by (simp add: namespace_present)
  have "truthy (namespace (parseListParams req))"
    using a by (simp add: n truthy_of_qval)
  then show "list_call r (parseListParams req) =
        KubeCall (client_of r) m (of_qval v # common_args (parseListParams req))"
    using a list_call_truthy [of "parseListParams req" r m] by (simp add: n)
qed

lemma common_args_scoped:
  "common_args (parseListParams scoped_request) =
     [Undefined, Undefined, Undefined, Undefined, Undefined, JNum (Fin 2), Undefined]"
  by (simp add: common_args_def parseListParams_def scoped_request_def qget_def js_or_def
      Number_two)

lemma common_args_plain:
  "common_args (parseListParams plain_request) =
     [Undefined, Undefined, Undefined, Undefined, Undefined, Undefined, Undefined]"
  by (simp add: common_args_def parseListParams_def plain_request_def qget_def js_or_def)

theorem list_call_scope_witness:
  "query scoped_request ''namespace'' = Some (QStr ''kube-system'')
   \<and> list_call Pods (parseListParams scoped_request) =
       KubeCall Core ''listNamespacedPod''
         [JStr ''kube-system'', Undefined, Undefined, Undefined, Undefined, Undefined,
          JNum (Fin 2), Undefined]
   \<and> query plain_request ''namespace'' = None
   \<and> list_call Pods (parseListParams plain_request) =
       KubeCall Core ''listPodForAllNamespaces''
         [Undefined, Undefined, Undefined, Undefined, Undefined, Undefined, Undefined]
   \<and> list_call Nodes (parseListParams scoped_request) =
       KubeCall Core ''listNode''
         [Undefined, Undefined, Undefined, Undefined, Undefined, JNum (Fin 2), Undefined]"
proof -
  have 1: "query scoped_request ''namespace'' = Some (QStr ''kube-system'')"
    by (simp add: scoped_request_def)
  have 2: "query plain_request ''namespace'' = None"
    by (simp add: plain_request_def)
  show ?thesis
    using 1 2 list_call_scope [of scoped_request Pods] list_call_scope [of plain_request Pods]
      list_call_scope [of scoped_request Nodes]
    by (simp add: common_args_scoped common_args_plain)
qed

text \<open>
  The claim as it was stated fails on \<^verbatim>\<open>/api/nodes?namespace=kube-system&limit=2\<close>: the
  parameter is present and not empty, and the call is the cluster-wide
  \<^verbatim>\<open>listNode\<close>, in which the namespace does not occur.
\<close>

theorem list_call_scope_counterexample:
  "namespace (parseListParams scoped_request) = JStr ''kube-system''
   \<and> list_call Nodes (parseListParams scoped_request) =
       KubeCall Core ''listNode''
         [Undefined, Undefined, Undefined, Undefined, Undefined, JNum (Fin 2), Undefined]"
  by (simp add: parseListParams_def scoped_request_def qget_def js_or_def Number_two)







text \<open>
  \<^bold>\<open>C5.\<close> When the error carries no embedded response (the property is
  \<^verbatim>\<open>undefined\<close> or \<^verbatim>\<open>null\<close>, or the error itself is), \<^verbatim>\<open>sendError\<close> answers with
  status 500 and \<^verbatim>\<open>details = {message: m}\<close>, where \<open>m\<close> is the message of the error,
  or \<^verbatim>\<open>"Unknown error"\<close> when the error has no message: none at all, or the empty
  string that an error made without a message has. Every list route whose upstream
  call rejects with such an error gives this answer.
\<close>

theorem sendError_local:
  assumes "nullish (optget err ''response'')"
  shows "sendError res err =
           \<lparr> statusCode = JNum (Fin 500),
             payload = Some (JObj
               [(''error'', JStr ''K8S_API_ERROR''),
                (''status'', JNum (Fin 500)),
                (''details'', JObj [(''message'',
                    if truthy (optget err ''message'') then optget err ''message''
                    else JStr ''Unknown error'')])]) \<rparr>
       \<and> (\<forall>kube r req. kube (list_call r (parseListParams req)) = Inl err \<longrightarrow>
            serve kube (List r) req =
              \<lparr> statusCode = JNum (Fin 500),
                payload = Some (JObj
                  [(''error'', JStr ''K8S_API_ERROR''),
                   (''status'', JNum (Fin 500)),
                   (''details'', JObj [(''message'',
                       if truthy (optget err ''message'') then optget err ''message''
                       else JStr ''Unknown error'')])]) \<rparr>)"
proof -
  have u: "optget (optget err ''response'') k = Undefined" for k
    using assms by (simp add: optget_def)
  have "sendError res err =
           \<lparr> statusCode = JNum (Fin 500),
             payload = Some (JObj
               [(''error'', JStr ''K8S_API_ERROR''),
                (''status'', JNum (Fin 500)),
                (''details'', JObj [(''message'',
                    if truthy (optget err ''message'') then optget err ''message''
                    else JStr ''Unknown error'')])]) \<rparr>" for res
    by (simp add: sendError_def u js_or_def res_json_def res_status_def Let_def response_eq)
  then show ?thesis
    by (simp add: list_handler_def thenE_def)
qed

theorem sendError_local_witness:
  "nullish (optget refused ''response'')
   \<and> serve (\<lambda>c. Inl refused) (List Pods) plain_request =
       \<lparr> statusCode = JNum (Fin 500),
         payload = Some (JObj
           [(''error'', JStr ''K8S_API_ERROR''),
            (''status'', JNum (Fin 500)),
            (''details'',
               JObj [(''message'', JStr ''connect ECONNREFUSED 127.0.0.1:6443'')])]) \<rparr>
   \<and> nullish (optget Undefined ''response'')
   \<and> sendError fresh_response Undefined =
       \<lparr> statusCode = JNum (Fin 500),
         payload = Some (JObj
           [(''error'', JStr ''K8S_API_ERROR''),
            (''status'', JNum (Fin 500)),
            (''details'', JObj [(''message'', JStr ''Unknown error'')])]) \<rparr>"
proof -
  have 1: "nullish (optget refused ''response'')"
    by (simp add: refused_def optget_def)
  have 2: "nullish (optget Undefined ''response'')"
    by (simp add: optget_def)
  have 3: "optget refused ''message'' = JStr ''connect ECONNREFUSED 127.0.0.1:6443''"
    by (simp add: refused_def optget_def)
  have 4: "optget Undefined ''message'' = Undefined"
    by (simp add: optget_def)
  show ?thesis
    using 1 2 sendError_local [OF 1, of fresh_response] sendError_local [OF 2, of fresh_response]
    by (simp add: 3 4)
qed

text \<open>
  \<^bold>\<open>C6.\<close> Whatever the upstream calls would do and whatever the request is, the route
  \<^verbatim>\<open>/api/health\<close> answers \<^verbatim>\<open>{ok: true}\<close> with status 200.
\<close>

theorem health_always_ok:
  "serve kube Health req =
     \<lparr> statusCode = JNum (Fin 200), payload = Some (JObj [(''ok'', JBool True)]) \<rparr>"
  by (simp add: health_handler_def res_json_def fresh_response_def)

text \<open>
  \<^bold>\<open>C7\<close> (amended). The loader calls exactly one loader of the library, chosen by
  this precedence: the in-cluster loader if and only if
  \<^verbatim>\<open>KUBERNETES_SERVICE_HOST\<close> is set to a non-empty value and the service-account
  token file and CA file both exist; otherwise the file loader, on the first existing
  path among the non-empty \<^verbatim>\<open>KUBECONFIG\<close> override followed by the four well-known
  paths; otherwise the default loader. Its outcome is the outcome of that one call:
  the configuration when the call returns, and the error of the call when it throws,
  since the loader catches nothing and tries no other strategy. With a library that
  never throws it always returns a configuration.
\<close>

theorem loader_precedence:
  fixes lib :: "'c kubelib"
  shows "\<exists>s. loadKubeConfigRobust tracing pf = Inr s
     \<and> loadKubeConfigRobust lib pf = run lib s
     \<and> (s = UseCluster \<longleftrightarrow>
          (\<exists>h. env pf ''KUBERNETES_SERVICE_HOST'' = Some h \<and> h \<noteq> [])
          \<and> existsSync pf (path_join pf [saDir, ''token''])
          \<and> existsSync pf (path_join pf [saDir, ''ca.crt'']))
     \<and> (\<forall>f. s = UseFile f \<longleftrightarrow>
          s \<noteq> UseCluster \<and> find (existsSync pf) (candidate_paths pf) = Some f)
     \<and> (s = UseDefault \<longleftrightarrow>
          s \<noteq> UseCluster \<and> find (existsSync pf) (candidate_paths pf) = None)"
proof -
  define s where "s = (if inCluster pf then UseCluster
              else case find (existsSync pf) (candidate_paths pf) of
                     Some f \<Rightarrow> UseFile f | None \<Rightarrow> UseDefault)"
  have 1: "loadKubeConfigRobust tracing pf = Inr s"
    using loader_run [of tracing pf] by (simp add: s_def run_tracing)
  have 2: "loadKubeConfigRobust lib pf = run lib s"
    using loader_run [of lib pf] by (simp add: s_def)
  have 3: "s = UseCluster \<longleftrightarrow> inCluster pf"
    by (simp add: s_def split: option.splits)
  have 4: "s = UseFile f \<longleftrightarrow>
          s \<noteq> UseCluster \<and> find (existsSync pf) (candidate_paths pf) = Some f" for f
    by (auto simp: s_def split: option.splits)
  have 5: "s = UseDefault \<longleftrightarrow>
          s \<noteq> UseCluster \<and> find (existsSync pf) (candidate_paths pf) = None"
    by (auto simp: s_def split: option.splits)
  show ?thesis
    using 1 2 3 4 5 unfolding inCluster_iff by blast
qed

lemma candidate_paths_admin_only:
  "candidate_paths admin_only =
     [''/etc/kubernetes/admin.conf'', ''/home/administrator/.kube/config'',
      ''/root/.kube/config'', ''/home/administrator/.kube/config'']"
  by (simp add: candidate_paths_def admin_only_def)

lemma find_admin_only:
  "find (existsSync admin_only) (candidate_paths admin_only) = Some ''/etc/kubernetes/admin.conf''"
  unfolding candidate_paths_admin_only by (simp add: admin_only_def)

theorem loader_precedence_witness:
  "find (existsSync admin_only) (candidate_paths admin_only) = Some ''/etc/kubernetes/admin.conf''
   \<and> loadKubeConfigRobust tracing admin_only = Inr (UseFile ''/etc/kubernetes/admin.conf'')
   \<and> loadKubeConfigRobust tracing in_pod = Inr UseCluster"
proof -
  obtain s where s: "loadKubeConfigRobust tracing admin_only = Inr s"
      "s = UseFile ''/etc/kubernetes/admin.conf'' \<longleftrightarrow>
         s \<noteq> UseCluster
         \<and> find (existsSync admin_only) (candidate_paths admin_only)
             = Some ''/etc/kubernetes/admin.conf''"
      "s = UseCluster \<longleftrightarrow>
          (\<exists>h. env admin_only ''KUBERNETES_SERVICE_HOST'' = Some h \<and> h \<noteq> [])
          \<and> existsSync admin_only (path_join admin_only [saDir, ''token''])
          \<and> existsSync admin_only (path_join admin_only [saDir, ''ca.crt''])"
    using loader_precedence [of admin_only tracing] by blast
  have "s \<noteq> UseCluster"
    using s(3) by (simp add: admin_only_def)
  then have 1: "loadKubeConfigRobust tracing admin_only = Inr (UseFile ''/etc/kubernetes/admin.conf'')"
    using s(1,2) find_admin_only by simp
  obtain t where t: "loadKubeConfigRobust tracing in_pod = Inr t"
      "t = UseCluster \<longleftrightarrow>
          (\<exists>h. env in_pod ''KUBERNETES_SERVICE_HOST'' = Some h \<and> h \<noteq> [])
          \<and> existsSync in_pod (path_join in_pod [saDir, ''token''])
          \<and> existsSync in_pod (path_join in_pod [saDir, ''ca.crt''])"
    using loader_precedence [of in_pod tracing] by blast
  have "t = UseCluster"
    using t(2) by (simp add: in_pod_def saDir_def)
  then have 2: "loadKubeConfigRobust tracing in_pod = Inr UseCluster"
    using t(1) by simp
  show ?thesis
    using 1 2 find_admin_only by simp
qed

text \<open>
  The claim as it was stated fails twice. With the host marker set to the empty string
  and both service-account files present, the in-cluster loader is not the one called.
  And where \<^verbatim>\<open>/etc/kubernetes/admin.conf\<close> exists but the library cannot read it, the
  loader ends with the error of the library instead of a configuration.
\<close>

theorem loader_precedence_counterexample:
  "env empty_marker ''KUBERNETES_SERVICE_HOST'' = Some []
   \<and> existsSync empty_marker (path_join empty_marker [saDir, ''token''])
   \<and> existsSync empty_marker (path_join empty_marker [saDir, ''ca.crt''])
   \<and> loadKubeConfigRobust tracing empty_marker = Inr UseDefault
   \<and> existsSync admin_only ''/etc/kubernetes/admin.conf''
   \<and> loadKubeConfigRobust strict admin_only =
       Inl (JObj [(''message'', JStr ''EACCES: permission denied'')])"
proof -
  have 1: "env empty_marker ''KUBERNETES_SERVICE_HOST'' = Some []"
    by (simp add: empty_marker_def)
  have 2: "existsSync empty_marker (path_join empty_marker [saDir, ''token''])"
    by (simp add: empty_marker_def saDir_def)
  have 3: "existsSync empty_marker (path_join empty_marker [saDir, ''ca.crt''])"
    by (simp add: empty_marker_def saDir_def)
  have 4: "candidates empty_marker = []"
    by (simp add: candidates_def empty_marker_def)
  have 5: "loadKubeConfigRobust tracing empty_marker = Inr UseDefault"
    by (simp add: loadKubeConfigRobust_def inCluster_def 1 4 tracing_def)
  have 6: "existsSync admin_only ''/etc/kubernetes/admin.conf''"
    by (simp add: admin_only_def)
  have 7: "\<not> inCluster admin_only"
    by (simp add: inCluster_def admin_only_def)
  have 8: "candidates admin_only = [''/etc/kubernetes/admin.conf'']"
    by (simp add: candidates_def admin_only_def)
  have 9: "loadKubeConfigRobust strict admin_only =
       Inl (JObj [(''message'', JStr ''EACCES: permission denied'')])"
    by (simp add: loadKubeConfigRobust_def 7 8 strict_def)
  show ?thesis
    using 1 2 3 5 6 9 by simp
qed




text \<open>
  \<^bold>\<open>C9.\<close> When the body of the upstream response has an array as \<^verbatim>\<open>items\<close>,
  \<^verbatim>\<open>sendList\<close> succeeds and the \<^verbatim>\<open>items\<close> of the envelope is that same array:
  the same elements in the same order, none dropped, none changed. This holds for the
  answer of every list route whose upstream call resolves to that response.
\<close>

theorem sendList_items_passthrough:
  assumes "getprop (getprop apiResp ''body'') ''items'' = JArr xs"
  shows "(\<exists>res'. sendList res apiResp = Inr res' \<and> envelope res' ''items'' = JArr xs)
       \<and> (\<forall>kube r req. kube (list_call r (parseListParams req)) = Inr apiResp \<longrightarrow>
             envelope (serve kube (List r) req) ''items'' = JArr xs)"
proof -
  have n: "\<not> nullish apiResp"
    using assms by (cases apiResp) simp_all
  have i: "list_items apiResp = JArr xs"
    using assms by (rule list_items_array)
  have s: "\<exists>res'. sendList res apiResp = Inr res' \<and> envelope res' ''items'' = JArr xs" for res
    by (simp add: sendList_Inr [OF n] envelope_def res_json_def i)
  have "envelope (serve kube (List r) req) ''items'' = JArr xs"
    if "kube (list_call r (parseListParams req)) = Inr apiResp" for kube r req
    using that s [of fresh_response] by (auto simp: list_handler_def thenE_def)
  with s show ?thesis
    by blast
qed

theorem sendList_items_passthrough_witness:
  "getprop (getprop pod_list ''body'') ''items'' = JArr [JStr ''pod-a'', JStr ''pod-b'']
   \<and> envelope (serve (\<lambda>c. Inr pod_list) (List Pods) plain_request) ''items'' =
       JArr [JStr ''pod-a'', JStr ''pod-b'']"
proof -
  have 1: "getprop (getprop pod_list ''body'') ''items'' = JArr [JStr ''pod-a'', JStr ''pod-b'']"
    by (simp add: pod_list_def)
  show ?thesis
    using 1 sendList_items_passthrough [OF 1, of fresh_response] by simp
qed

text \<open>
  \<^bold>\<open>C10.\<close> In every response of \<^verbatim>\<open>sendError\<close> the \<^verbatim>\<open>status\<close> of the payload is the
  status code of the response; both are the status code embedded in the error, or both
  are 500. Hence every answer of a list route that carries the error envelope has the
  status code that its payload names.
\<close>

theorem sendError_status_agrees:
  "statusCode (sendError res err) = envelope (sendError res err) ''status''
   \<and> (statusCode (sendError res err) = JNum (Fin 500)
        \<or> statusCode (sendError res err) = optget (optget err ''response'') ''statusCode'')
   \<and> (\<forall>kube r req.
         envelope (serve kube (List r) req) ''error'' = JStr ''K8S_API_ERROR'' \<longrightarrow>
         statusCode (serve kube (List r) req) = envelope (serve kube (List r) req) ''status'')"
proof -
  have 1: "statusCode (sendError res err) = JNum (Fin 500)
        \<or> statusCode (sendError res err) = optget (optget err ''response'') ''statusCode''"
    by (simp add: sendError_def res_json_def res_status_def js_or_def Let_def)
  have 2: "statusCode (serve kube (List r) req) = envelope (serve kube (List r) req) ''status''"
    if "envelope (serve kube (List r) req) ''error'' = JStr ''K8S_API_ERROR''" for kube r req
    using serve_success_or_error [of kube r req] that
    by (auto simp: sendError_status dest: success_has_no_error)
  from 1 2 show ?thesis
    by (simp add: sendError_status)
qed

theorem sendError_status_agrees_witness:
  "envelope (serve (\<lambda>c. Inl refused) (List Pods) plain_request) ''error'' = JStr ''K8S_API_ERROR''
   \<and> statusCode (serve (\<lambda>c. Inl refused) (List Pods) plain_request) = JNum (Fin 500)
   \<and> envelope (serve (\<lambda>c. Inl refused) (List Pods) plain_request) ''status'' = JNum (Fin 500)"
proof -
  have 1: "serve (\<lambda>c. Inl refused) (List Pods) plain_request = sendError fresh_response refused"
    by (simp add: list_handler_def thenE_def)
  have 2: "envelope (sendError fresh_response refused) ''error'' = JStr ''K8S_API_ERROR''"
    by (simp add: refused_def eval_defs)
  have 3: "statusCode (sendError fresh_response refused) = JNum (Fin 500)"
    by (simp add: refused_def eval_defs)
  show ?thesis
    unfolding 1 using 2 3 sendError_status_agrees [of fresh_response refused]
    by simp
qed

end
